theory Spec2Isabelle
  imports Complex_Main
begin

section \<open>Python values, errors and strings\<close>

text \<open>
  The pipeline passes JSON-like Python values between the HTTP starter, the orchestrators
  and the activities. A dict is kept as an association list (looked up with
  \<open>map_of\<close>); a float is abstracted to a real number.
\<close>

datatype pyval =
    PNone
  | PBool bool
  | PInt int
  | PFloat real
  | PStr string
  | PList "pyval list"
  | PDict "(string \<times> pyval) list"

text \<open>
  Exceptions are values. Every class below is a subclass of Python's \<open>Exception\<close>,
  so an \<open>except Exception\<close> handler catches each of them. The string is the
  exception's message; \<open>ServiceError\<close> stands for whatever an external client
  library (storage, document analysis, the model endpoint, the database) raises.
  \<open>JSONDecodeError\<close> is \<open>json.JSONDecodeError\<close>, the only class an
  \<open>except json.JSONDecodeError\<close> handler catches.
\<close>

datatype py_error =
    TypeError string
  | ValueError string
  | KeyError string
  | AttributeError string
  | RuntimeError string
  | UnboundLocalError string
  | IndexError string
  | ServiceError string
  | JSONDecodeError string
  | RecursionError string

fun error_message :: "py_error \<Rightarrow> string" where
  "error_message (TypeError m) = m"
| "error_message (ValueError m) = m"
| "error_message (KeyError m) = m"
| "error_message (AttributeError m) = m"
| "error_message (RuntimeError m) = m"
| "error_message (UnboundLocalError m) = m"
| "error_message (IndexError m) = m"
| "error_message (ServiceError m) = m"
| "error_message (JSONDecodeError m) = m"
| "error_message (RecursionError m) = m"

fun is_JSONDecodeError :: "py_error \<Rightarrow> bool" where
  "is_JSONDecodeError (JSONDecodeError m) = True"
| "is_JSONDecodeError e = False"

text \<open>Python truthiness (\<open>not v\<close>, \<open>if v\<close>, \<open>a or b\<close>).\<close>

fun truthy :: "pyval \<Rightarrow> bool" where
  "truthy PNone = False"
| "truthy (PBool b) = b"
| "truthy (PInt i) = (i \<noteq> 0)"
| "truthy (PFloat r) = (r \<noteq> 0)"
| "truthy (PStr s) = (s \<noteq> [])"
| "truthy (PList xs) = (xs \<noteq> [])"
| "truthy (PDict kvs) = (kvs \<noteq> [])"

fun py_type_name :: "pyval \<Rightarrow> string" where
  "py_type_name PNone = ''NoneType''"
| "py_type_name (PBool b) = ''bool''"
| "py_type_name (PInt i) = ''int''"
| "py_type_name (PFloat r) = ''float''"
| "py_type_name (PStr s) = ''str''"
| "py_type_name (PList xs) = ''list''"
| "py_type_name (PDict kvs) = ''dict''"

text \<open>\<open>d.get(k)\<close>: the value, or None when the key is absent; on a value that is
  not a dict the attribute lookup raises.\<close>

fun py_get :: "pyval \<Rightarrow> string \<Rightarrow> py_error + pyval" where
  "py_get (PDict kvs) k = Inr (case map_of kvs k of None \<Rightarrow> PNone | Some v \<Rightarrow> v)"
| "py_get v k = Inl (AttributeError (py_type_name v @ '' object has no attribute get''))"

text \<open>\<open>d[k]\<close>: KeyError when the key is absent, TypeError on a value that cannot
  be subscripted with a string.\<close>

fun py_item :: "pyval \<Rightarrow> string \<Rightarrow> py_error + pyval" where
  "py_item (PDict kvs) k = (case map_of kvs k of None \<Rightarrow> Inl (KeyError k) | Some v \<Rightarrow> Inr v)"
| "py_item v k = Inl (TypeError (py_type_name v @ '' cannot be indexed with a str''))"

text \<open>
  Strings are lists of characters with code points below 256. \<open>str.isspace\<close> on
  that range is true of TAB, LF, VT, FF, CR, the separators 0x1C to 0x1F, the space, NEL
  (0x85) and the no-break space (0xA0); \<open>str.strip()\<close> removes such characters
  from both ends, \<open>str.strip(chars)\<close> the characters of \<open>chars\<close>.
\<close>

definition py_isspace :: "char \<Rightarrow> bool" where
  "py_isspace c = (of_char c \<in> {9, 10, 11, 12, 13, 28, 29, 30, 31, 32, 133, 160 :: nat})"

definition py_lstrip :: "string \<Rightarrow> string" where
  "py_lstrip s = dropWhile py_isspace s"

definition py_rstrip :: "string \<Rightarrow> string" where
  "py_rstrip s = rev (dropWhile py_isspace (rev s))"

definition py_strip :: "string \<Rightarrow> string" where
  "py_strip s = py_rstrip (py_lstrip s)"

definition py_strip_chars :: "string \<Rightarrow> string \<Rightarrow> string" where
  "py_strip_chars chars s =
     rev (dropWhile (\<lambda>c. c \<in> set chars) (rev (dropWhile (\<lambda>c. c \<in> set chars) s)))"

definition startswith :: "string \<Rightarrow> string \<Rightarrow> bool" where
  "startswith s p = (take (length p) s = p)"

definition py_lower_char :: "char \<Rightarrow> char" where
  "py_lower_char c =
     (let n = (of_char c :: nat)
      in if (65 \<le> n \<and> n \<le> 90) \<or> (192 \<le> n \<and> n \<le> 222 \<and> n \<noteq> 215)
         then char_of (n + 32) else c)"

definition py_lower :: "string \<Rightarrow> string" where
  "py_lower s = map py_lower_char s"

definition backtick :: char where
  "backtick = CHR 0x60"

definition fence :: string where
  "fence = [backtick, backtick, backtick]"

text \<open>
  The parts of the Python standard library the activities call. They are not code of the
  repository, so they are parameters of the model: \<open>json_loads\<close> is
  \<open>json.loads\<close>, which returns the value or raises (a \<open>JSONDecodeError\<close>
  on a text that is not JSON, but also a \<open>RecursionError\<close> on a text nested too
  deeply or a \<open>ValueError\<close> on an integer literal with too many digits),
  \<open>json_dumps\<close>
  is \<open>json.dumps(v, ensure_ascii=False, separators=(",", ":"))\<close>, which may raise
  as well,
  \<open>py_repr\<close> is the text an f-string puts for a value that is neither a string,
  None, a boolean nor an integer, \<open>py_int\<close> is \<open>int(s)\<close> on a string (None for a
  \<open>ValueError\<close>), and \<open>fromisoformat\<close> and \<open>isoformat\<close> are
  those of \<open>datetime\<close>. A point in time is a natural number, the time elapsed
  since \<open>datetime.min\<close>.
\<close>

record pylib =
  json_loads :: "string \<Rightarrow> py_error + pyval"
  json_dumps :: "pyval \<Rightarrow> py_error + string"
  py_repr :: "pyval \<Rightarrow> string"
  py_int :: "string \<Rightarrow> int option"
  fromisoformat :: "string \<Rightarrow> nat option"
  isoformat :: "nat \<Rightarrow> string"

fun decimal :: "nat \<Rightarrow> string" where
  "decimal n =
     (if n < 10 then [char_of (48 + n)] else decimal (n div 10) @ [char_of (48 + n mod 10)])"

declare decimal.simps [simp del]

text \<open>What an f-string puts for a value.\<close>

definition py_format :: "pylib \<Rightarrow> pyval \<Rightarrow> string" where
  "py_format lib v =
     (case v of
        PStr s \<Rightarrow> s
      | PNone \<Rightarrow> ''None''
      | PBool b \<Rightarrow> (if b then ''True'' else ''False'')
      | PInt i \<Rightarrow> (if i < 0 then ''-'' @ decimal (nat (- i)) else decimal (nat i))
      | _ \<Rightarrow> py_repr lib v)"

definition newline :: char where
  "newline = CHR 0x0A"

fun py_join :: "string \<Rightarrow> string list \<Rightarrow> string" where
  "py_join sep [] = []"
| "py_join sep [x] = x"
| "py_join sep (x # y # ys) = x @ sep @ py_join sep (y # ys)"

text \<open>\<open>str.encode('utf-8')\<close> on code points below 256: one byte below 128, two above.\<close>

definition utf8_encode_char :: "char \<Rightarrow> string" where
  "utf8_encode_char c =
     (let n = (of_char c :: nat)
      in if n < 128 then [c] else [char_of (192 + n div 64), char_of (128 + n mod 64)])"

definition utf8_encode :: "string \<Rightarrow> string" where
  "utf8_encode s = concat (map utf8_encode_char s)"

text \<open>
  \<open>os.path.basename\<close> and \<open>os.path.splitext\<close> as \<open>posixpath\<close>
  defines them (the function host runs on Linux): the base name is what follows the last
  slash; the extension starts at the last dot of the base name, unless only dots precede
  that dot there.
\<close>

definition rfind :: "char \<Rightarrow> string \<Rightarrow> int" where
  "rfind c s =
     (if c \<in> set s then int (length s) - 1 - int (length (takeWhile (\<lambda>x. x \<noteq> c) (rev s)))
      else - 1)"

definition basename :: "string \<Rightarrow> string" where
  "basename p = drop (nat (rfind (CHR ''/'') p + 1)) p"

definition splitext :: "string \<Rightarrow> string \<times> string" where
  "splitext p =
     (let sepIndex = rfind (CHR ''/'') p;
          dotIndex = rfind (CHR ''.'') p
      in if dotIndex > sepIndex \<and>
            list_ex (\<lambda>c. c \<noteq> CHR ''.'')
              (take (nat (dotIndex - (sepIndex + 1))) (drop (nat (sepIndex + 1)) p))
         then (take (nat dotIndex) p, drop (nat dotIndex) p)
         else (p, []))"

section \<open>External services and effects\<close>

text \<open>
  What the external collaborators answer during one attempt of an activity. Each field
  is the outcome of one call site: an exception (\<open>Inl\<close>, or \<open>Some e\<close> for
  a call without a result) or the value returned.
  \<^item> \<open>download_blob\<close>: \<open>blob_client.download_blob().readall()\<close>;
  \<^item> \<open>analyze_document\<close>: \<open>begin_analyze_document(...).result()\<close>, reduced to
    the contents of \<open>result.paragraphs\<close> (None when that attribute is None);
  \<^item> \<open>load_prompts\<close>: the prompt configuration read from blob storage or Cosmos DB;
  \<^item> \<open>create_openai_client\<close>, \<open>save_chat_message\<close> (by role) and
    \<open>chat_completion\<close> (from the system and user prompts to
    \<open>response.choices[0].message.content\<close>): the calls of \<open>run_prompt\<close>;
  \<^item> \<open>upload_blob\<close>: \<open>blob_client.upload_blob(data, overwrite=True)\<close>.
\<close>

record services =
  download_blob :: "py_error + string"
  analyze_document :: "py_error + string list option"
  load_prompts :: "py_error + pyval"
  create_openai_client :: "py_error option"
  save_chat_message :: "string \<Rightarrow> py_error option"
  chat_completion :: "pyval \<Rightarrow> string \<Rightarrow> py_error + string option"
  upload_blob :: "py_error option"

text \<open>
  What an activity does to the outside: its calls of \<open>upload_blob\<close>, each with
  the container, the blob path and the data. What an orchestration does, in the order it
  happens: an activity invoked by the substrate (name and attempt number), a retry timer
  (milliseconds), an upload made by an activity and a telemetry event
  (\<open>_track_event\<close>, by event name).
\<close>

type_synonym upload = "string \<times> string \<times> string"

datatype effect =
    ActivityInvoked string nat
  | TimerWaited real
  | UploadBlob upload
  | Tracked string

fun invocations :: "effect list \<Rightarrow> (string \<times> nat) list" where
  "invocations [] = []"
| "invocations (ActivityInvoked name i # es) = (name, i) # invocations es"
| "invocations (e # es) = invocations es"

fun timers :: "effect list \<Rightarrow> real list" where
  "timers [] = []"
| "timers (TimerWaited d # es) = d # timers es"
| "timers (e # es) = timers es"

fun uploads :: "effect list \<Rightarrow> upload list" where
  "uploads [] = []"
| "uploads (UploadBlob u # es) = u # uploads es"
| "uploads (e # es) = uploads es"

section \<open>pipelineUtils\<close>

text \<open>\<open>blob_functions.get_blob_content\<close> and \<open>blob_functions.write_to_blob\<close>:
  the latter returns True whenever the upload does not raise.\<close>

definition get_blob_content :: "services \<Rightarrow> pyval \<Rightarrow> string \<Rightarrow> py_error + string" where
  "get_blob_content svc container_name blob_path = download_blob svc"

definition write_to_blob ::
  "services \<Rightarrow> string \<Rightarrow> string \<Rightarrow> string \<Rightarrow> (py_error + bool) \<times> upload list" where
  "write_to_blob svc container_name blob_path data =
     ((case upload_blob svc of Some e \<Rightarrow> Inl e | None \<Rightarrow> Inr True),
      [(container_name, blob_path, data)])"

text \<open>\<open>azure_openai.run_prompt\<close>: creating the client and saving the two prompts
  happen before the \<open>try\<close>; inside it every exception becomes None.\<close>

definition run_prompt :: "services \<Rightarrow> pyval \<Rightarrow> pyval \<Rightarrow> string \<Rightarrow> py_error + string option" where
  "run_prompt svc pipeline_id system_prompt user_prompt =
     (case create_openai_client svc of
        Some e \<Rightarrow> Inl e
      | None \<Rightarrow>
     (case save_chat_message svc ''system'' of
        Some e \<Rightarrow> Inl e
      | None \<Rightarrow>
     (case save_chat_message svc ''user'' of
        Some e \<Rightarrow> Inl e
      | None \<Rightarrow>
     (case chat_completion svc system_prompt user_prompt of
        Inl e \<Rightarrow> Inr None
      | Inr assistant_msg \<Rightarrow>
     (case save_chat_message svc ''assistant'' of
        Some e \<Rightarrow> Inr None
      | None \<Rightarrow> Inr assistant_msg)))))"

section \<open>activities/callAoai.py\<close>

text \<open>
  Lines 50 to 66 of \<open>run\<close>: the response is trimmed; a response that starts with a
  fence loses the backticks at both ends and, when what is left starts with
  \<open>json\<close> (in any case), these four characters and the whitespace around the
  rest. What is left is parsed and serialised again inside the inner \<open>try\<close>; its
  handler catches a \<open>JSONDecodeError\<close> only and then keeps the text. Any other
  exception leaves the inner \<open>try\<close> (\<open>Inl\<close>).
\<close>

definition normalize_response :: "pylib \<Rightarrow> string \<Rightarrow> py_error + string" where
  "normalize_response lib response_content =
     (let trimmed = py_strip response_content;
          trimmed =
            (if startswith trimmed fence
             then (let trimmed = py_strip_chars [backtick] trimmed
                   in if startswith (py_lower trimmed) ''json''
                      then py_strip (drop 4 trimmed) else trimmed)
             else trimmed)
      in case (case json_loads lib trimmed of
                 Inl e \<Rightarrow> Inl e
               | Inr parsed \<Rightarrow> json_dumps lib parsed) of
           Inr json_str \<Rightarrow> Inr json_str
         | Inl e \<Rightarrow> if is_JSONDecodeError e then Inr trimmed else Inl e)"

text \<open>The body of the \<open>try\<close> block of \<open>run\<close>; \<open>Inl\<close> is an
  exception raised inside it.\<close>

definition callAoai_try :: "pylib \<Rightarrow> services \<Rightarrow> pyval \<Rightarrow> pyval \<Rightarrow> py_error + pyval" where
  "callAoai_try lib svc instance_id inputData =
     (case inputData of
        PDict kvs \<Rightarrow>
          (case py_get inputData ''text_result'' of
             Inl e \<Rightarrow> Inl e
           | Inr text_result \<Rightarrow>
          if \<not> truthy text_result
          then Inl (ValueError ''callAoai requires 'text_result' to be a non-empty string.'')
          else
          (case load_prompts svc of
             Inl e \<Rightarrow> Inl e
           | Inr prompt_json \<Rightarrow>
          (case py_get prompt_json ''system_prompt'' of
             Inl e \<Rightarrow> Inl e
           | Inr system_prompt \<Rightarrow>
          (case py_get prompt_json ''user_prompt'' of
             Inl e \<Rightarrow> Inl e
           | Inr user_prompt_template \<Rightarrow>
          if \<not> truthy system_prompt \<or> \<not> truthy user_prompt_template
          then Inl (KeyError ''Prompt configuration must include 'system_prompt' and 'user_prompt'.'')
          else
          (case user_prompt_template of
             PStr template \<Rightarrow>
               (let full_user_prompt =
                      py_rstrip template @ [newline, newline] @ py_format lib text_result
                in case run_prompt svc instance_id system_prompt full_user_prompt of
                     Inl e \<Rightarrow> Inl e
                   | Inr None \<Rightarrow> Inl (RuntimeError ''Azure OpenAI returned no content.'')
                   | Inr (Some response_content) \<Rightarrow>
                       (case normalize_response lib response_content of
                          Inl e \<Rightarrow> Inl e
                        | Inr json_str \<Rightarrow> Inr (PStr json_str)))
           | _ \<Rightarrow>
               Inl (AttributeError
                      (py_type_name user_prompt_template @ '' object has no attribute rstrip'')))))))
      | _ \<Rightarrow>
          Inl (TypeError (''callAoai expected dict input; received '' @ py_type_name inputData)))"

text \<open>\<open>run\<close>: \<open>except Exception\<close> turns every exception of the body into
  the return value None.\<close>

definition callAoai_run :: "pylib \<Rightarrow> services \<Rightarrow> pyval \<Rightarrow> py_error + pyval" where
  "callAoai_run lib svc inputData =
     (let instance_id =
            (case inputData of
               PDict kvs \<Rightarrow> (case map_of kvs ''instance_id'' of None \<Rightarrow> PNone | Some v \<Rightarrow> v)
             | _ \<Rightarrow> PNone)
      in case callAoai_try lib svc instance_id inputData of
           Inl e \<Rightarrow> Inr PNone
         | Inr json_str \<Rightarrow> Inr json_str)"

section \<open>activities/runDocIntel.py\<close>

definition normalize_blob_name :: "pyval \<Rightarrow> pyval \<Rightarrow> py_error + string" where
  "normalize_blob_name container raw_name =
     (case raw_name of
        PStr r \<Rightarrow>
          (case container of
             PStr c \<Rightarrow> Inr (if startswith r (c @ ''/'') then drop (length c + 1) r else r)
           | _ \<Rightarrow> Inl (TypeError (py_type_name container @ '' cannot be concatenated with str'')))
      | _ \<Rightarrow> Inl (AttributeError (py_type_name raw_name @ '' object has no attribute startswith'')))"

text \<open>The body of the \<open>try\<close> block of \<open>extract_text_from_blob\<close>. The
  variable \<open>paragraphs\<close> is bound only when \<open>result.paragraphs\<close> is truthy;
  returning it unbound raises.\<close>

definition runDocIntel_try :: "services \<Rightarrow> pyval \<Rightarrow> py_error + pyval" where
  "runDocIntel_try svc blobObj =
     (case py_item blobObj ''container'' of
        Inl e \<Rightarrow> Inl e
      | Inr container \<Rightarrow>
     (case py_item blobObj ''name'' of
        Inl e \<Rightarrow> Inl e
      | Inr raw_name \<Rightarrow>
     (case normalize_blob_name container raw_name of
        Inl e \<Rightarrow> Inl e
      | Inr blob_name \<Rightarrow>
     (case get_blob_content svc container blob_name of
        Inl e \<Rightarrow> Inl e
      | Inr blob_content \<Rightarrow>
     (case analyze_document svc of
        Inl e \<Rightarrow> Inl e
      | Inr result_paragraphs \<Rightarrow>
          (let paragraphs =
                 (case result_paragraphs of
                    None \<Rightarrow> None
                  | Some ps \<Rightarrow> if ps \<noteq> [] then Some (py_join [newline] ps) else None)
           in case paragraphs of
                None \<Rightarrow>
                  Inl (UnboundLocalError
                         ''cannot access local variable 'paragraphs' where it is not associated with a value'')
              | Some text \<Rightarrow> Inr (PStr text)))))))"

text \<open>\<open>extract_text_from_blob\<close> of runDocIntel: the two type checks stand before the
  \<open>try\<close> and raise to the caller; everything inside the \<open>try\<close> is caught and
  becomes None.\<close>

definition runDocIntel_extract_text_from_blob :: "pylib \<Rightarrow> services \<Rightarrow> pyval \<Rightarrow> py_error + pyval" where
  "runDocIntel_extract_text_from_blob lib svc blobObj0 =
     (case (case blobObj0 of
              PStr s \<Rightarrow>
                (case json_loads lib s of
                   Inl e \<Rightarrow>
                     Inl (TypeError
                            (''runDocIntel expected dict or JSON string; got str that failed JSON decode: ''
                               @ error_message e))
                 | Inr v \<Rightarrow> Inr v)
            | _ \<Rightarrow> Inr blobObj0) of
        Inl e \<Rightarrow> Inl e
      | Inr blobObj \<Rightarrow>
          (case blobObj of
             PDict kvs \<Rightarrow>
               (case runDocIntel_try svc blobObj of
                  Inl e \<Rightarrow> Inr PNone
                | Inr paragraphs \<Rightarrow> Inr paragraphs)
           | _ \<Rightarrow> Inl (TypeError (''runDocIntel expected dict; got '' @ py_type_name blobObj))))"

section \<open>activities/writeToBlob.py\<close>

text \<open>\<open>NEXT_STAGE\<close>, the output container, is read from the configuration when the
  module is loaded; it is a parameter here.\<close>

definition output_blob_name :: "pylib \<Rightarrow> pyval \<Rightarrow> string \<Rightarrow> string" where
  "output_blob_name lib args blob_name =
     (let sourcefile = fst (splitext (basename blob_name));
          instance_id =
            (case args of
               PDict kvs \<Rightarrow> (case map_of kvs ''instance_id'' of None \<Rightarrow> PStr ''general'' | Some v \<Rightarrow> v)
             | _ \<Rightarrow> PStr ''general'')
      in py_format lib instance_id @ ''/'' @ sourcefile @ ''-output.json'')"

text \<open>The body of the \<open>try\<close> block of \<open>extract_text_from_blob\<close> of
  writeToBlob, with the effects it has had when it returns or raises.\<close>

definition writeToBlob_try ::
  "pylib \<Rightarrow> string \<Rightarrow> services \<Rightarrow> pyval \<Rightarrow> (py_error + pyval) \<times> upload list" where
  "writeToBlob_try lib NEXT_STAGE svc args =
     (case py_get args ''json_str'' of
        Inl e \<Rightarrow> (Inl e, [])
      | Inr json_str \<Rightarrow>
     (case json_str of
        PStr js \<Rightarrow>
          if py_strip js = []
          then (Inl (ValueError ''writeToBlob requires 'json_str' to be a non-empty string.''), [])
          else
            (let json_bytes = utf8_encode js
             in case py_item args ''blob_name'' of
                  Inl e \<Rightarrow> (Inl e, [])
                | Inr blob_name \<Rightarrow>
                (case blob_name of
                   PStr bn \<Rightarrow>
                     (let output_blob = output_blob_name lib args bn;
                          (result, effects) = write_to_blob svc NEXT_STAGE output_blob json_bytes
                      in case result of
                           Inl e \<Rightarrow> (Inl e, effects)
                         | Inr ok \<Rightarrow>
                             if ok
                             then (Inr (PDict [(''success'', PBool True),
                                               (''blob_name'', blob_name),
                                               (''output_blob'', PStr output_blob)]), effects)
                             else (Inr (PDict [(''success'', PBool False),
                                               (''error'', PStr ''Failed to write output'')]), effects))
                 | _ \<Rightarrow>
                     (Inl (TypeError (''expected str, bytes or os.PathLike object, not ''
                                      @ py_type_name blob_name)), [])))
      | _ \<Rightarrow> (Inl (ValueError ''writeToBlob requires 'json_str' to be a non-empty string.''), [])))"

text \<open>\<open>extract_text_from_blob\<close> of writeToBlob: the handler builds its message from
  \<open>args['blob_name']\<close>, which raises in its turn when \<open>args\<close> has no such
  key.\<close>

definition writeToBlob_extract_text_from_blob ::
  "pylib \<Rightarrow> string \<Rightarrow> services \<Rightarrow> pyval \<Rightarrow> (py_error + pyval) \<times> upload list" where
  "writeToBlob_extract_text_from_blob lib NEXT_STAGE svc args =
     (case writeToBlob_try lib NEXT_STAGE svc args of
        (Inr result, effects) \<Rightarrow> (Inr result, effects)
      | (Inl e, effects) \<Rightarrow>
          (case py_item args ''blob_name'' of
             Inl e' \<Rightarrow> (Inl e', effects)
           | Inr blob_name \<Rightarrow>
               (let error_msg = ''Error writing output for blob '' @ py_format lib blob_name
                                @ '': '' @ error_message e
                in (Inr (PDict [(''success'', PBool False), (''error'', PStr error_msg)]), effects))))"

section \<open>The durable-execution substrate\<close>

text \<open>
  \<open>RetryOptions(first_retry_interval_in_milliseconds, max_number_of_attempts)\<close>,
  with the attributes \<open>backoff_coefficient\<close> and \<open>max_retry_interval\<close>
  (milliseconds here) the orchestrator sets afterwards.
\<close>

record RetryOptions =
  first_retry_interval_in_milliseconds :: real
  max_number_of_attempts :: nat
  backoff_coefficient :: real
  max_retry_interval :: real

text \<open>What ends an orchestration without a result: a stage whose retries are exhausted
  (stage name, attempts made, last error), or an exception of the orchestrator's own
  code.\<close>

datatype failure =
    StageFailure string nat py_error
  | OrchestratorError py_error

text \<open>
  Modelled from the spec: the retry executor \<open>call_activity_with_retry\<close> of the
  durable-execution substrate, which is not under src/. The delay before attempt
  \<open>i\<close> (\<open>i > 1\<close>) is \<open>min(base * c^(i-2), m)\<close>. The operation is
  invoked; a returned value ends the stage at once; an exception is followed by a
  timer and another attempt while fewer than \<open>max_number_of_attempts\<close> attempts
  have been made, and by the stage's failure otherwise. \<open>activity i input\<close> is
  what the activity does on attempt \<open>i\<close>.
\<close>

definition retry_delay :: "RetryOptions \<Rightarrow> nat \<Rightarrow> real" where
  "retry_delay policy i =
     min (first_retry_interval_in_milliseconds policy * backoff_coefficient policy ^ (i - 2))
         (max_retry_interval policy)"

function retry_loop ::
  "(nat \<Rightarrow> pyval \<Rightarrow> (py_error + pyval) \<times> upload list) \<Rightarrow> string \<Rightarrow> RetryOptions \<Rightarrow> pyval
     \<Rightarrow> nat \<Rightarrow> (failure + pyval) \<times> effect list" where
  "retry_loop activity name policy input i =
     (case activity i input of
        (Inr v, effects) \<Rightarrow> (Inr v, ActivityInvoked name i # map UploadBlob effects)
      | (Inl e, effects) \<Rightarrow>
          if max_number_of_attempts policy \<le> i
          then (Inl (StageFailure name i e), ActivityInvoked name i # map UploadBlob effects)
          else (case retry_loop activity name policy input (Suc i) of
                  (r, later) \<Rightarrow>
                    (r, ActivityInvoked name i # map UploadBlob effects
                        @ TimerWaited (retry_delay policy (Suc i)) # later)))"
  by pat_completeness auto
termination
  by (relation "measure (\<lambda>(activity, name, policy, input, i). max_number_of_attempts policy - i)")
     auto

definition call_activity_with_retry ::
  "(nat \<Rightarrow> pyval \<Rightarrow> (py_error + pyval) \<times> upload list) \<Rightarrow> string \<Rightarrow> RetryOptions \<Rightarrow> pyval
     \<Rightarrow> (failure + pyval) \<times> effect list" where
  "call_activity_with_retry activity name policy input = retry_loop activity name policy input 1"

text \<open>
  Modelled from the spec: the join \<open>task_all\<close> of the substrate, which is not under
  src/. It waits until every task has reached a terminal state and then gives the tasks'
  outcomes in the order of the task list; \<open>terminal_events\<close> are the outcomes that
  have arrived, in the order of arrival.
\<close>

definition task_all :: "nat list \<Rightarrow> (nat \<times> 'r) list \<Rightarrow> 'r list option" where
  "task_all sub_tasks terminal_events = those (map (map_of terminal_events) sub_tasks)"

text \<open>The orchestration context: the instance's id, the id of the orchestration that
  started it as a sub-orchestration (if any), and its input.\<close>

record orchestration_context =
  instance_id :: string
  parent_instance_id :: "string option"
  get_input :: pyval

section \<open>function\_app.py: the orchestrators\<close>

text \<open>The activities, as the substrate reaches them by name: what each returns or
  raises, and what it uploads, on a given attempt with a given input.\<close>

record activities =
  runDocIntel :: "nat \<Rightarrow> pyval \<Rightarrow> (py_error + pyval) \<times> upload list"
  callAoai :: "nat \<Rightarrow> pyval \<Rightarrow> (py_error + pyval) \<times> upload list"
  writeToBlob :: "nat \<Rightarrow> pyval \<Rightarrow> (py_error + pyval) \<times> upload list"

definition doc_retry :: RetryOptions where
  "doc_retry = \<lparr>first_retry_interval_in_milliseconds = 5, max_number_of_attempts = 3,
                 backoff_coefficient = 2, max_retry_interval = 30000\<rparr>"

definition aoai_retry :: RetryOptions where
  "aoai_retry = \<lparr>first_retry_interval_in_milliseconds = 10, max_number_of_attempts = 3,
                  backoff_coefficient = 2, max_retry_interval = 60000\<rparr>"

definition write_retry :: RetryOptions where
  "write_retry = \<lparr>first_retry_interval_in_milliseconds = 5, max_number_of_attempts = 5,
                   backoff_coefficient = 2, max_retry_interval = 30000\<rparr>"

text \<open>\<open>context.parent_instance_id or context.instance_id\<close>.\<close>

definition destination_instance_id :: "orchestration_context \<Rightarrow> string" where
  "destination_instance_id context =
     (case parent_instance_id context of
        None \<Rightarrow> instance_id context
      | Some p \<Rightarrow> if p \<noteq> [] then p else instance_id context)"

text \<open>
  The sub-orchestrator \<open>process_blob\<close>. An exception at a \<open>yield\<close> (a stage
  whose retries are exhausted) is not caught, so it ends the function there; so does the
  subscript \<open>blob_metadata["name"]\<close> when it raises.
\<close>

definition process_blob :: "activities \<Rightarrow> orchestration_context \<Rightarrow> (failure + pyval) \<times> effect list" where
  "process_blob acts context =
     (let blob_metadata = get_input context;
          sub_orchestration_id = instance_id context;
          started = [Tracked ''ProcessBlobStarted'']
      in case call_activity_with_retry (runDocIntel acts) ''runDocIntel'' doc_retry
                blob_metadata of
           (Inl f, effects1) \<Rightarrow> (Inl f, started @ effects1)
         | (Inr text_result, effects1) \<Rightarrow>
      (let call_aoai_input = PDict [(''text_result'', text_result),
                                    (''instance_id'', PStr sub_orchestration_id)]
       in case call_activity_with_retry (callAoai acts) ''callAoai'' aoai_retry
                 call_aoai_input of
            (Inl f, effects2) \<Rightarrow> (Inl f, started @ effects1 @ effects2)
          | (Inr json_str, effects2) \<Rightarrow>
      (case py_item blob_metadata ''name'' of
         Inl e \<Rightarrow> (Inl (OrchestratorError e), started @ effects1 @ effects2)
       | Inr blob_name \<Rightarrow>
      (let write_input = PDict [(''json_str'', json_str),
                                (''blob_name'', blob_name),
                                (''instance_id'', PStr (destination_instance_id context))]
       in case call_activity_with_retry (writeToBlob acts) ''writeToBlob'' write_retry
                 write_input of
            (Inl f, effects3) \<Rightarrow> (Inl f, started @ effects1 @ effects2 @ effects3)
          | (Inr task_result, effects3) \<Rightarrow>
              (Inr (PDict [(''blob'', blob_metadata),
                           (''text_result'', text_result),
                           (''task_result'', task_result)]),
               started @ effects1 @ effects2 @ effects3
                 @ [Tracked ''ProcessBlobCompleted''])))))"

text \<open>The activities registered with the app (\<open>app.register_functions\<close>):
  \<open>answers name i\<close> is what the external services answer during attempt
  \<open>i\<close> of the activity \<open>name\<close>.\<close>

definition registered_activities ::
  "pylib \<Rightarrow> string \<Rightarrow> (string \<Rightarrow> nat \<Rightarrow> services) \<Rightarrow> activities" where
  "registered_activities lib NEXT_STAGE answers =
     \<lparr>runDocIntel = (\<lambda>i blobObj.
        (runDocIntel_extract_text_from_blob lib (answers ''runDocIntel'' i) blobObj, [])),
      callAoai = (\<lambda>i inputData.
        (callAoai_run lib (answers ''callAoai'' i) inputData, [])),
      writeToBlob = (\<lambda>i args.
        writeToBlob_extract_text_from_blob lib NEXT_STAGE (answers ''writeToBlob'' i) args)\<rparr>"

text \<open>\<open>for x in v\<close>: the elements of a list, the keys of a dict, the characters of a
  string; anything else is not iterable.\<close>

definition py_iter :: "pyval \<Rightarrow> py_error + pyval list" where
  "py_iter v =
     (case v of
        PList xs \<Rightarrow> Inr xs
      | PDict kvs \<Rightarrow> Inr (map PStr (remdups (map fst kvs)))
      | PStr s \<Rightarrow> Inr (map (\<lambda>c. PStr [c]) s)
      | _ \<Rightarrow> Inl (TypeError (py_type_name v @ '' object is not iterable'')))"

text \<open>
  The sub-orchestrations the orchestrator starts, one per element of its input and in
  that order: task \<open>k\<close> runs \<open>process_blob\<close> on element \<open>k\<close>, under an
  instance id of its own (\<open>child_id k\<close>) and with the orchestrator's instance as
  its parent; \<open>child_acts k\<close> is what the activities do for that task.
\<close>

definition sub_context :: "(nat \<Rightarrow> string) \<Rightarrow> orchestration_context \<Rightarrow> nat \<Rightarrow> pyval \<Rightarrow> orchestration_context" where
  "sub_context child_id context k blob_metadata =
     \<lparr>instance_id = child_id k, parent_instance_id = Some (instance_id context),
      get_input = blob_metadata\<rparr>"

definition call_sub_orchestrators ::
  "(nat \<Rightarrow> activities) \<Rightarrow> (nat \<Rightarrow> string) \<Rightarrow> orchestration_context \<Rightarrow> pyval list
     \<Rightarrow> (nat \<times> ((failure + pyval) \<times> effect list)) list" where
  "call_sub_orchestrators child_acts child_id context input_data =
     map (\<lambda>(k, blob_metadata).
            (k, process_blob (child_acts k) (sub_context child_id context k blob_metadata)))
         (zip [0..<length input_data] input_data)"

datatype batch_status =
    Waiting
  | Failed py_error
  | Completed "(failure + pyval) list"

text \<open>
  The orchestrator \<open>run\<close>. \<open>terminal\<close> lists the tasks that have reached a
  terminal state so far, in the order they reached it; while the join is waiting the
  orchestrator has not returned.
\<close>

definition orchestrator_run ::
  "(nat \<Rightarrow> activities) \<Rightarrow> (nat \<Rightarrow> string) \<Rightarrow> orchestration_context \<Rightarrow> nat list
     \<Rightarrow> batch_status \<times> effect list" where
  "orchestrator_run child_acts child_id context terminal =
     (case py_iter (get_input context) of
        Inl e \<Rightarrow> (Failed e, [])
      | Inr input_data \<Rightarrow>
          (let children = call_sub_orchestrators child_acts child_id context input_data;
               sub_tasks = map fst children;
               terminal_events =
                 concat (map (\<lambda>k. case map_of children k of
                                     None \<Rightarrow> []
                                   | Some (outcome, effects) \<Rightarrow> [(k, outcome)]) terminal)
           in case task_all sub_tasks terminal_events of
                None \<Rightarrow> (Waiting, [])
              | Some results \<Rightarrow> (Completed results, [Tracked ''OrchestrationCompleted''])))"

section \<open>function\_app.py: the HTTP endpoints\<close>

text \<open>
  A request: its headers, its query parameters and what \<open>req.get_json()\<close> gives
  (None when it raises \<open>ValueError\<close>). A response: the status code and the payload
  that \<open>json.dumps\<close> serialises into the body.
\<close>

record http_request =
  headers :: "(string \<times> string) list"
  params :: "(string \<times> string) list"
  get_json :: "pyval option"

record http_response =
  status_code :: nat
  payload :: pyval

definition json_response :: "bool \<Rightarrow> string \<Rightarrow> nat \<Rightarrow> string \<Rightarrow> pyval \<Rightarrow> http_response" where
  "json_response success message code correlation_id data =
     \<lparr>status_code = code,
      payload = PDict ([(''success'', PBool success),
                        (''message'', PStr message),
                        (''correlationId'', PStr correlation_id)]
                       @ (if truthy data then [(''data'', data)] else []))\<rparr>"

text \<open>\<open>a or b\<close> on optional strings: the first operand when it is truthy, else the
  second.\<close>

definition py_or :: "string option \<Rightarrow> string option \<Rightarrow> string option" where
  "py_or a b = (case a of None \<Rightarrow> b | Some s \<Rightarrow> if s \<noteq> [] then a else b)"

text \<open>\<open>_authenticate_request\<close>: None when the request is authorised, else the 401
  response. \<open>API_KEY\<close> is read from the configuration when the module is loaded.\<close>

definition authenticate_request :: "string option \<Rightarrow> http_request \<Rightarrow> string \<Rightarrow> http_response option" where
  "authenticate_request API_KEY req correlation_id =
     (case API_KEY of
        None \<Rightarrow> None
      | Some key \<Rightarrow>
          (let supplied_key = py_or (py_or (map_of (headers req) ''x-api-key'')
                                           (map_of (headers req) ''X-API-Key''))
                                    (map_of (params req) ''code'');
               supplied_key = map_option py_strip supplied_key
           in if supplied_key = Some key then None
              else Some (json_response False ''Unauthorized.'' 401 correlation_id PNone)))"

text \<open>\<open>_enforce_rate_limit\<close>: \<open>now\<close> is \<open>time.monotonic()\<close>; the result is
  \<open>(allowed, retry_after)\<close> with the hits as the function leaves them.\<close>

definition enforce_rate_limit ::
  "real list \<Rightarrow> nat \<Rightarrow> real \<Rightarrow> real \<Rightarrow> (py_error + bool \<times> real option) \<times> real list" where
  "enforce_rate_limit hits limit window_seconds now =
     (let hits = dropWhile (\<lambda>h. now - h > window_seconds) hits
      in if limit \<le> length hits
         then (case hits of
                 [] \<Rightarrow> (Inl (IndexError ''deque index out of range''), hits)
               | h # _ \<Rightarrow> (Inr (False, Some (max 0 (window_seconds - (now - h)))), hits))
         else (Inr (True, None), hits @ [now]))"

text \<open>
  The orchestration client: the id \<open>start_new\<close> gives the instance it starts, the
  body of \<open>create_check_status_response\<close> read as JSON (None when that fails), and
  what \<open>get_status_all\<close> gives. The state of the app: the rate limiter's hits and
  the instances started (orchestrator name, instance id, input).
\<close>

record orchestration_status =
  status_instance_id :: string
  status_name :: string
  runtime_status :: "string option"
  created_time :: "nat option"
  last_updated_time :: "nat option"
  status_output :: pyval

record durable_client =
  new_instance_id :: string
  check_status_body :: "pyval option"
  get_status_all :: "py_error + orchestration_status list"

record app_state =
  rate_hits :: "real list"
  started_instances :: "(string \<times> string \<times> pyval) list"

definition missing_required :: "(string \<times> pyval) list \<Rightarrow> string \<Rightarrow> bool" where
  "missing_required b k =
     (case map_of b k of
        Some (PStr s) \<Rightarrow> py_strip s = []
      | _ \<Rightarrow> True)"

text \<open>The loop over \<open>enumerate(blobs)\<close>: the response of the first entry that is
  refused, None when every entry passes.\<close>

fun validate_blobs :: "pylib \<Rightarrow> string \<Rightarrow> nat \<Rightarrow> pyval list \<Rightarrow> http_response option" where
  "validate_blobs lib correlation_id i [] = None"
| "validate_blobs lib correlation_id i (b # bs) =
     (case b of
        PDict kvs \<Rightarrow>
          if list_ex (missing_required kvs) [''name'', ''url'', ''container'']
          then Some (json_response False
                       (''Invalid request: blobs['' @ py_format lib (PInt (int i))
                        @ ''] must contain non-empty string keys ('name', 'url', 'container').'')
                       400 correlation_id PNone)
          else validate_blobs lib correlation_id (Suc i) bs
      | _ \<Rightarrow>
          Some (json_response False
                  (''Invalid request: blobs['' @ py_format lib (PInt (int i)) @ ''] must be an object.'')
                  400 correlation_id PNone))"

text \<open>\<open>start_orchestrator_http\<close>. \<open>correlation_id\<close> is the fresh
  \<open>uuid4\<close>; \<open>Inl\<close> is an exception the function does not catch.\<close>

definition start_orchestrator_http ::
  "pylib \<Rightarrow> string option \<Rightarrow> durable_client \<Rightarrow> string \<Rightarrow> real \<Rightarrow> http_request \<Rightarrow> app_state
     \<Rightarrow> (py_error + http_response) \<times> app_state" where
  "start_orchestrator_http lib API_KEY client correlation_id now req state =
     (case authenticate_request API_KEY req correlation_id of
        Some auth_response \<Rightarrow> (Inr auth_response, state)
      | None \<Rightarrow>
     (case enforce_rate_limit (rate_hits state) 20 60 now of
        (Inl e, hits) \<Rightarrow> (Inl e, state\<lparr>rate_hits := hits\<rparr>)
      | (Inr (allowed, retry_after), hits) \<Rightarrow>
     (let state = state\<lparr>rate_hits := hits\<rparr>
      in if \<not> allowed
         then (Inr (json_response False
                      (''Too many requests. Try again in ''
                       @ py_format lib (PInt (ceiling (case retry_after of None \<Rightarrow> 0 | Some r \<Rightarrow> r)))
                       @ '' seconds.'')
                      429 correlation_id PNone), state)
         else
     (case get_json req of
        None \<Rightarrow> (Inr (json_response False ''Invalid JSON payload.'' 400 correlation_id PNone), state)
      | Some body \<Rightarrow>
     (case py_get body ''blobs'' of
        Inl e \<Rightarrow> (Inl e, state)
      | Inr blobs \<Rightarrow>
     (case blobs of
        PList bs \<Rightarrow>
          if bs = []
          then (Inr (json_response False ''Invalid request: 'blobs' must be a non-empty array.''
                       400 correlation_id PNone), state)
          else
            (case validate_blobs lib correlation_id 0 bs of
               Some refusal \<Rightarrow> (Inr refusal, state)
             | None \<Rightarrow>
                 (let instance_id = new_instance_id client;
                      state = state\<lparr>started_instances :=
                                started_instances state @ [(''orchestrator'', instance_id, blobs)]\<rparr>;
                      status_payload = (case check_status_body client of
                                          None \<Rightarrow> PDict []
                                        | Some p \<Rightarrow> p);
                      data = PDict [(''instanceId'', PStr instance_id),
                                    (''durableStatus'', status_payload)]
                  in (Inr (json_response True ''Orchestration started.'' 202 correlation_id data),
                      state)))
      | _ \<Rightarrow>
          (Inr (json_response False ''Invalid request: 'blobs' must be a non-empty array.''
                  400 correlation_id PNone), state)))))))"

text \<open>\<open>list_orchestration_history\<close>, lines 292 to 297: the limit is 20 when the
  parameter is absent or empty, and is clamped to 1..100; None when \<open>int\<close> raises.\<close>

definition parse_limit :: "pylib \<Rightarrow> string option \<Rightarrow> int option" where
  "parse_limit lib limit_param =
     map_option (\<lambda>limit. max 1 (min limit 100))
       (case limit_param of
          None \<Rightarrow> Some 20
        | Some s \<Rightarrow> if s \<noteq> [] then py_int lib s else Some 20)"

text \<open>Lines 299 to 305: no lower bound when the parameter is absent or empty;
  \<open>Inl ()\<close> when \<open>fromisoformat\<close> raises.\<close>

definition parse_since :: "pylib \<Rightarrow> string option \<Rightarrow> unit + nat option" where
  "parse_since lib since_param =
     (case since_param of
        None \<Rightarrow> Inr None
      | Some s \<Rightarrow>
          if s \<noteq> []
          then (case fromisoformat lib s of None \<Rightarrow> Inl () | Some t \<Rightarrow> Inr (Some t))
          else Inr None)"

definition sort_key_of :: "orchestration_status \<Rightarrow> nat" where
  "sort_key_of s = (case created_time s of None \<Rightarrow> 0 | Some t \<Rightarrow> t)"

text \<open>Lines 313 to 321: the filter on \<open>since\<close>, the stable sort with
  \<open>reverse=True\<close> (equal keys keep their order) and the slice.\<close>

definition recent_statuses ::
  "nat option \<Rightarrow> nat \<Rightarrow> orchestration_status list \<Rightarrow> orchestration_status list" where
  "recent_statuses since_time limit statuses =
     (let statuses =
            (case since_time of
               None \<Rightarrow> statuses
             | Some t \<Rightarrow>
                 filter (\<lambda>s. case created_time s of None \<Rightarrow> False | Some c \<Rightarrow> t \<le> c) statuses);
          statuses = rev (sort_key sort_key_of (rev statuses))
      in take limit statuses)"

definition history_item :: "pylib \<Rightarrow> orchestration_status \<Rightarrow> pyval" where
  "history_item lib status =
     PDict [(''instanceId'', PStr (status_instance_id status)),
            (''name'', PStr (status_name status)),
            (''runtimeStatus'',
               (case runtime_status status of None \<Rightarrow> PNone | Some r \<Rightarrow> PStr r)),
            (''createdTime'',
               (case created_time status of None \<Rightarrow> PNone | Some t \<Rightarrow> PStr (isoformat lib t))),
            (''lastUpdatedTime'',
               (case last_updated_time status of None \<Rightarrow> PNone | Some t \<Rightarrow> PStr (isoformat lib t))),
            (''outputAvailable'', PBool (status_output status \<noteq> PNone))]"

definition list_orchestration_history ::
  "pylib \<Rightarrow> string option \<Rightarrow> durable_client \<Rightarrow> string \<Rightarrow> http_request \<Rightarrow> http_response" where
  "list_orchestration_history lib API_KEY client correlation_id req =
     (case authenticate_request API_KEY req correlation_id of
        Some auth_response \<Rightarrow> auth_response
      | None \<Rightarrow>
     (case parse_limit lib (map_of (params req) ''limit'') of
        None \<Rightarrow>
          json_response False ''Query parameter 'limit' must be an integer.'' 400 correlation_id PNone
      | Some limit \<Rightarrow>
     (case parse_since lib (map_of (params req) ''since'') of
        Inl _ \<Rightarrow>
          json_response False
            ''Query parameter 'since' must be ISO-8601 (e.g., 2025-11-11T15:00:00).''
            400 correlation_id PNone
      | Inr since_time \<Rightarrow>
     (case get_status_all client of
        Inl exc \<Rightarrow>
          json_response False ''Failed to retrieve orchestration history.'' 500 correlation_id PNone
      | Inr statuses \<Rightarrow>
          (let items = map (history_item lib) (recent_statuses since_time (nat limit) statuses);
               data = PDict [(''items'', PList items), (''continuationToken'', PNone)]
           in json_response True ''History retrieved.'' 200 correlation_id data)))))"

section \<open>Example environments\<close>

text \<open>
  Concrete inputs for the examples below. \<open>example_lib\<close> is the library on the few
  strings the examples use: the one JSON document \<open>{"a":1}\<close>, three integers and
  one timestamp. \<open>good_services\<close> answers every call; the model wraps its answer
  in a fence.
\<close>

definition example_lib :: pylib where
  "example_lib =
     \<lparr>json_loads = (\<lambda>s. if s = ''{\"a\":1}'' then Inr (PDict [(''a'', PInt 1)])
                         else Inl (JSONDecodeError ''Expecting value'')),
      json_dumps = (\<lambda>v. Inr (if v = PDict [(''a'', PInt 1)] then ''{\"a\":1}'' else ''null'')),
      py_repr = (\<lambda>v. ''...''),
      py_int = map_of [(''5'', 5), (''0'', 0), (''500'', 500)],
      fromisoformat = map_of [(''0001-01-01T00:00:07'', 7)],
      isoformat = (\<lambda>t. ''0001-01-01T00:00:'' @ decimal t)\<rparr>"


definition good_services :: services where
  "good_services =
     \<lparr>download_blob = Inr ''%PDF-1.7'',
      analyze_document = Inr (Some [''Invoice 42'', ''Total 10'']),
      load_prompts = Inr (PDict [(''system_prompt'', PStr ''Extract the fields.''),
                                 (''user_prompt'', PStr ''Document:'')]),
      create_openai_client = None,
      save_chat_message = (\<lambda>role. None),
      chat_completion = (\<lambda>system_prompt user_prompt.
        Inr (Some (fence @ ''json'' @ newline # ''{\"a\":1}'' @ newline # fence))),
      upload_blob = None\<rparr>"

definition no_content_services :: services where
  "no_content_services =
     good_services\<lparr>chat_completion := (\<lambda>system_prompt user_prompt. Inr None)\<rparr>"

definition no_paragraph_services :: services where
  "no_paragraph_services = good_services\<lparr>analyze_document := Inr (Some [])\<rparr>"


definition no_content_answers :: "string \<Rightarrow> nat \<Rightarrow> services" where
  "no_content_answers name i = no_content_services"

text \<open>An activity that raises on every attempt, and one that raises on the first two
  attempts and returns on the third.\<close>

definition always_down :: "nat \<Rightarrow> pyval \<Rightarrow> (py_error + pyval) \<times> upload list" where
  "always_down i input = (Inl (ServiceError ''503''), [])"

definition up_on_third :: "nat \<Rightarrow> pyval \<Rightarrow> (py_error + pyval) \<times> upload list" where
  "up_on_third i input =
     (if i < 3 then (Inl (ServiceError ''503''), []) else (Inr (PStr ''text''), []))"

definition document_a :: pyval where
  "document_a = PDict [(''name'', PStr ''bronze/a.pdf''),
                       (''url'', PStr ''https://store/bronze/a.pdf''),
                       (''container'', PStr ''bronze'')]"

definition document_b :: pyval where
  "document_b = PDict [(''name'', PStr ''bronze/b.pdf''),
                       (''url'', PStr ''https://store/bronze/b.pdf''),
                       (''container'', PStr ''bronze'')]"

definition aoai_input :: pyval where
  "aoai_input = PDict [(''text_result'', PStr ''Invoice 42''), (''instance_id'', PStr ''batch1:0'')]"





section \<open>Properties of the string functions and the activities\<close>















lemma callAoai_try_result:
  "callAoai_try lib svc iid inputData = Inr r \<Longrightarrow> \<exists>s. r = PStr s"
  by (auto simp: callAoai_try_def Let_def split: pyval.splits sum.splits if_splits option.splits)

lemma callAoai_run_Inr:
  "\<exists>r. callAoai_run lib svc inputData = Inr r \<and> (r = PNone \<or> (\<exists>s. r = PStr s))"
proof (cases "callAoai_try lib svc
                (case inputData of
                   PDict kvs \<Rightarrow> (case map_of kvs ''instance_id'' of None \<Rightarrow> PNone | Some v \<Rightarrow> v)
                 | _ \<Rightarrow> PNone) inputData")
  case (Inl e)
  then show ?thesis by (simp add: callAoai_run_def)
next
  case (Inr r)
  with callAoai_try_result [OF Inr] show ?thesis by (auto simp: callAoai_run_def)
qed

lemma retry_first_return:
  "fst (activity 1 input) = Inr v \<Longrightarrow>
   call_activity_with_retry activity name policy input
     = (Inr v, ActivityInvoked name 1 # map UploadBlob (snd (activity 1 input)))"
  by (cases "activity 1 input") (simp add: call_activity_with_retry_def)

text \<open>
  C9. The transformation activity returns a string or None for every input and every
  answer of the services, and never raises: a missing or empty \<open>text_result\<close>, a
  failure to load the prompts and a model call without content each give None. The
  substrate therefore sees the first attempt return, makes no second attempt and waits
  for no retry timer, whatever the retry policy.
\<close>

theorem callAoai_run_never_raises:
  "(\<exists>r. callAoai_run lib svc inputData = Inr r \<and> (r = PNone \<or> (\<exists>s. r = PStr s)))
   \<and> (py_get inputData ''text_result'' = Inr v \<and> \<not> truthy v \<longrightarrow>
        callAoai_run lib svc inputData = Inr PNone)
   \<and> (load_prompts svc = Inl e \<longrightarrow> callAoai_run lib svc inputData = Inr PNone)
   \<and> ((\<forall>pid sp up. run_prompt svc pid sp up = Inr None) \<longrightarrow>
        callAoai_run lib svc inputData = Inr PNone)
   \<and> invocations (snd (call_activity_with_retry
         (callAoai (registered_activities lib NEXT_STAGE answers)) ''callAoai'' policy inputData))
       = [(''callAoai'', 1)]
   \<and> timers (snd (call_activity_with_retry
         (callAoai (registered_activities lib NEXT_STAGE answers)) ''callAoai'' policy inputData))
       = []"
proof (intro conjI impI)
  show "\<exists>r. callAoai_run lib svc inputData = Inr r \<and> (r = PNone \<or> (\<exists>s. r = PStr s))"
    by (rule callAoai_run_Inr)
next
  assume "py_get inputData ''text_result'' = Inr v \<and> \<not> truthy v"
  then show "callAoai_run lib svc inputData = Inr PNone"
    by (cases inputData) (auto simp: callAoai_run_def callAoai_try_def split: sum.splits)
next
  assume "load_prompts svc = Inl e"
  then show "callAoai_run lib svc inputData = Inr PNone"
    by (cases inputData) (auto simp: callAoai_run_def callAoai_try_def split: sum.splits)
next
  assume "\<forall>pid sp up. run_prompt svc pid sp up = Inr None"
  then show "callAoai_run lib svc inputData = Inr PNone"
    by (cases inputData)
       (auto simp: callAoai_run_def callAoai_try_def Let_def split: sum.splits pyval.splits)
next
  let ?act = "callAoai (registered_activities lib NEXT_STAGE answers)"
  obtain r where r: "fst (?act 1 inputData) = Inr r"
    using callAoai_run_Inr [of lib "answers ''callAoai'' 1" inputData]
    by (auto simp: registered_activities_def)
  have e: "snd (?act 1 inputData) = []" by (simp add: registered_activities_def)
  note first = retry_first_return [where activity = ?act and input = inputData and v = r
                                     and policy = policy and name = "''callAoai''", OF r]
  show "invocations (snd (call_activity_with_retry ?act ''callAoai'' policy inputData))
          = [(''callAoai'', 1)]"
    using first e by simp
  show "timers (snd (call_activity_with_retry ?act ''callAoai'' policy inputData)) = []"
    using first e by simp
qed

theorem callAoai_run_never_raises_witness:
  "callAoai_run example_lib no_content_services aoai_input = Inr PNone
   \<and> callAoai_run example_lib good_services (PDict [(''text_result'', PStr [])]) = Inr PNone
   \<and> callAoai_run example_lib (good_services\<lparr>load_prompts := Inl (RuntimeError ''no prompts'')\<rparr>)
        aoai_input = Inr PNone
   \<and> invocations (snd (call_activity_with_retry
         (callAoai (registered_activities example_lib ''silver'' no_content_answers))
         ''callAoai'' aoai_retry aoai_input))
       = [(''callAoai'', 1)]"
  using callAoai_run_never_raises
          [where lib = example_lib and svc = no_content_services and inputData = aoai_input
             and policy = aoai_retry and NEXT_STAGE = "''silver''"
             and answers = no_content_answers]
        callAoai_run_never_raises
          [where lib = example_lib and svc = good_services
             and inputData = "PDict [(''text_result'', PStr [])]" and v = "PStr []"]
        callAoai_run_never_raises
          [where lib = example_lib
             and svc = "good_services\<lparr>load_prompts := Inl (RuntimeError ''no prompts'')\<rparr>"
             and inputData = aoai_input and e = "RuntimeError ''no prompts''"]
  by (simp add: no_content_services_def good_services_def run_prompt_def aoai_input_def)

text \<open>
  C10. When the analysis succeeds and \<open>result.paragraphs\<close> is absent or empty, the
  extraction activity returns None, as it does when the download or the analysis
  raises: with the blob read, the \<open>try\<close> block ends in the
  \<open>UnboundLocalError\<close> of the variable \<open>paragraphs\<close>, which the handler
  turns into None.
\<close>

theorem runDocIntel_no_paragraphs_gives_None:
  "(analyze_document svc = Inr ps \<and> (ps = None \<or> ps = Some []) \<longrightarrow>
      runDocIntel_extract_text_from_blob lib svc (PDict kvs) = Inr PNone)
   \<and> (analyze_document svc = Inr ps \<and> (ps = None \<or> ps = Some []) \<and>
       map_of kvs ''container'' = Some (PStr c) \<and> map_of kvs ''name'' = Some (PStr n) \<and>
       download_blob svc = Inr content \<longrightarrow>
      (\<exists>m. runDocIntel_try svc (PDict kvs) = Inl (UnboundLocalError m)))
   \<and> (analyze_document svc = Inl e \<or> download_blob svc = Inl e \<longrightarrow>
      runDocIntel_extract_text_from_blob lib svc (PDict kvs) = Inr PNone)"
  by (auto simp: runDocIntel_extract_text_from_blob_def runDocIntel_try_def Let_def
        normalize_blob_name_def get_blob_content_def split: sum.splits)

theorem runDocIntel_no_paragraphs_gives_None_witness:
  "runDocIntel_extract_text_from_blob example_lib no_paragraph_services document_a = Inr PNone
   \<and> (\<exists>m. runDocIntel_try no_paragraph_services document_a = Inl (UnboundLocalError m))
   \<and> runDocIntel_extract_text_from_blob example_lib
        (good_services\<lparr>analyze_document := Inl (ServiceError ''503'')\<rparr>) document_a = Inr PNone"
  using runDocIntel_no_paragraphs_gives_None
          [where svc = no_paragraph_services and ps = "Some []" and lib = example_lib
             and kvs = "[(''name'', PStr ''bronze/a.pdf''),
                         (''url'', PStr ''https://store/bronze/a.pdf''),
                         (''container'', PStr ''bronze'')]"
             and c = "''bronze''" and n = "''bronze/a.pdf''" and content = "''%PDF-1.7''"]
        runDocIntel_no_paragraphs_gives_None
          [where svc = "good_services\<lparr>analyze_document := Inl (ServiceError ''503'')\<rparr>"
             and lib = example_lib and e = "ServiceError ''503''"
             and kvs = "[(''name'', PStr ''bronze/a.pdf''),
                         (''url'', PStr ''https://store/bronze/a.pdf''),
                         (''container'', PStr ''bronze'')]"]
  by (simp add: no_paragraph_services_def good_services_def document_a_def)


section \<open>Properties of the substrate and the orchestrators\<close>

lemma invocations_append: "invocations (xs @ ys) = invocations xs @ invocations ys"
  by (induction xs rule: invocations.induct) auto

lemma timers_append: "timers (xs @ ys) = timers xs @ timers ys"
  by (induction xs rule: timers.induct) auto

lemma uploads_append: "uploads (xs @ ys) = uploads xs @ uploads ys"
  by (induction xs rule: uploads.induct) auto

lemma invocations_uploads: "invocations (map UploadBlob us) = []"
  by (induction us) auto

lemma timers_uploads: "timers (map UploadBlob us) = []"
  by (induction us) auto

lemma uploads_uploads: "uploads (map UploadBlob us) = us"
  by (induction us) auto

lemmas effects_simps =
  invocations_append timers_append uploads_append
  invocations_uploads timers_uploads uploads_uploads

text \<open>What the retry loop started at attempt \<open>i\<close> does: it ends at some attempt
  \<open>n\<close>, every attempt before \<open>n\<close> raised, and attempt \<open>n\<close> either returned
  or was the last one allowed.\<close>

lemma retry_loop_spec:
  "\<exists>n\<ge>i. invocations (snd (retry_loop activity name policy input i)) = map (Pair name) [i..<Suc n]
     \<and> timers (snd (retry_loop activity name policy input i))
         = map (retry_delay policy) [Suc i..<Suc n]
     \<and> uploads (snd (retry_loop activity name policy input i))
         = concat (map (\<lambda>j. snd (activity j input)) [i..<Suc n])
     \<and> (\<forall>j. i \<le> j \<and> j < n \<longrightarrow>
           isl (fst (activity j input)) \<and> j < max_number_of_attempts policy)
     \<and> fst (retry_loop activity name policy input i)
         = (case fst (activity n input) of
              Inr v \<Rightarrow> Inr v
            | Inl e \<Rightarrow> Inl (StageFailure name n e))
     \<and> (isl (fst (activity n input)) \<longrightarrow> max_number_of_attempts policy \<le> n)"
proof (induction activity name policy input i rule: retry_loop.induct)
  case (1 activity name policy input i)
  obtain outcome ups where a: "activity i input = (outcome, ups)" by (cases "activity i input")
  show ?case
  proof (cases outcome)
    case (Inr v)
    with a show ?thesis
      by (intro exI [of _ i]) (auto simp: effects_simps)
  next
    case (Inl e)
    show ?thesis
    proof (cases "max_number_of_attempts policy \<le> i")
      case True
      with a Inl show ?thesis
        by (intro exI [of _ i]) (auto simp: effects_simps)
    next
      case False
      from "1.IH" [OF a [symmetric] Inl False]
      obtain n where n: "Suc i \<le> n"
        and inv: "invocations (snd (retry_loop activity name policy input (Suc i)))
                    = map (Pair name) [Suc i..<Suc n]"
        and tim: "timers (snd (retry_loop activity name policy input (Suc i)))
                    = map (retry_delay policy) [Suc (Suc i)..<Suc n]"
        and upl: "uploads (snd (retry_loop activity name policy input (Suc i)))
                    = concat (map (\<lambda>j. snd (activity j input)) [Suc i..<Suc n])"
        and bef: "\<forall>j. Suc i \<le> j \<and> j < n \<longrightarrow>
                    isl (fst (activity j input)) \<and> j < max_number_of_attempts policy"
        and res: "fst (retry_loop activity name policy input (Suc i))
                    = (case fst (activity n input) of
                         Inr v \<Rightarrow> Inr v
                       | Inl e \<Rightarrow> Inl (StageFailure name n e))"
        and lst: "isl (fst (activity n input)) \<longrightarrow> max_number_of_attempts policy \<le> n"
        by blast
      obtain r later where rl: "retry_loop activity name policy input (Suc i) = (r, later)"
        by (cases "retry_loop activity name policy input (Suc i)")
      have unfold: "retry_loop activity name policy input i
                      = (r, ActivityInvoked name i # map UploadBlob ups
                            @ TimerWaited (retry_delay policy (Suc i)) # later)"
        using a Inl False rl by simp
      have l1: "[i..<Suc n] = i # [Suc i..<Suc n]"
        using n by (simp add: upt_conv_Cons)
      have l2: "[Suc i..<Suc n] = Suc i # [Suc (Suc i)..<Suc n]"
        using n by (simp add: upt_conv_Cons)
      have before: "\<forall>j. i \<le> j \<and> j < n \<longrightarrow>
                      isl (fst (activity j input)) \<and> j < max_number_of_attempts policy"
      proof (intro allI impI)
        fix j assume j: "i \<le> j \<and> j < n"
        show "isl (fst (activity j input)) \<and> j < max_number_of_attempts policy"
        proof (cases "j = i")
          case True
          with a Inl False show ?thesis by simp
        next
          case False
          with j bef show ?thesis by simp
        qed
      qed
      show ?thesis
      proof (intro exI [of _ n] conjI)
        show "i \<le> n" using n by simp
        show "invocations (snd (retry_loop activity name policy input i)) = map (Pair name) [i..<Suc n]"
          unfolding unfold l1 using inv rl by (simp add: effects_simps)
        show "timers (snd (retry_loop activity name policy input i))
                = map (retry_delay policy) [Suc i..<Suc n]"
          unfolding unfold l2 using tim rl by (simp add: effects_simps)
        show "uploads (snd (retry_loop activity name policy input i))
                = concat (map (\<lambda>j. snd (activity j input)) [i..<Suc n])"
          unfolding unfold l1 using upl rl a by (simp add: effects_simps)
        show "\<forall>j. i \<le> j \<and> j < n \<longrightarrow>
                isl (fst (activity j input)) \<and> j < max_number_of_attempts policy"
          by (rule before)
        show "fst (retry_loop activity name policy input i)
                = (case fst (activity n input) of
                     Inr v \<Rightarrow> Inr v
                   | Inl e \<Rightarrow> Inl (StageFailure name n e))"
          unfolding unfold using res rl by simp
        show "isl (fst (activity n input)) \<longrightarrow> max_number_of_attempts policy \<le> n"
          by (rule lst)
      qed
    qed
  qed
qed

text \<open>
  C2 (as amended). With a policy of at least one attempt, the stage makes attempts
  \<open>1, ..., n\<close> with \<open>n\<close> at most \<open>max_number_of_attempts\<close>; before attempt
  \<open>i > 1\<close> it waits \<open>min(base * c^(i-2), m)\<close>; every attempt but the last
  raised, and the last one returned or was the last one allowed: an attempt that raises
  is followed by a retry until the attempts are exhausted. A returned value is the
  stage's result; exhaustion gives the failure with the stage name, the number of
  attempts and the last error.
\<close>

theorem call_activity_with_retry_attempts:
  assumes "1 \<le> max_number_of_attempts policy"
  shows "(\<exists>n. 1 \<le> n \<and> n \<le> max_number_of_attempts policy
            \<and> invocations (snd (call_activity_with_retry activity name policy input))
                = map (Pair name) [1..<Suc n]
            \<and> timers (snd (call_activity_with_retry activity name policy input))
                = map (\<lambda>i. min (first_retry_interval_in_milliseconds policy
                                  * backoff_coefficient policy ^ (i - 2))
                                (max_retry_interval policy)) [2..<Suc n]
            \<and> (\<forall>i. 1 \<le> i \<and> i < n \<longrightarrow> isl (fst (activity i input)))
            \<and> (isl (fst (activity n input)) \<longrightarrow> n = max_number_of_attempts policy)
            \<and> fst (call_activity_with_retry activity name policy input)
                = (case fst (activity n input) of
                     Inr v \<Rightarrow> Inr v
                   | Inl e \<Rightarrow> Inl (StageFailure name n e)))
         \<and> ((\<forall>i. 1 \<le> i \<and> i \<le> max_number_of_attempts policy \<longrightarrow> isl (fst (activity i input)))
              \<longrightarrow> (\<exists>e. fst (activity (max_number_of_attempts policy) input) = Inl e
                      \<and> fst (call_activity_with_retry activity name policy input)
                          = Inl (StageFailure name (max_number_of_attempts policy) e))
                  \<and> length (invocations (snd (call_activity_with_retry activity name policy input)))
                      = max_number_of_attempts policy)"
proof -
  let ?k = "max_number_of_attempts policy"
  let ?run = "call_activity_with_retry activity name policy input"
  from retry_loop_spec [of 1 activity name policy input]
  obtain n where n: "1 \<le> n"
    and inv: "invocations (snd ?run) = map (Pair name) [1..<Suc n]"
    and tim: "timers (snd ?run) = map (retry_delay policy) [Suc 1..<Suc n]"
    and bef: "\<forall>j. 1 \<le> j \<and> j < n \<longrightarrow> isl (fst (activity j input)) \<and> j < ?k"
    and res: "fst ?run = (case fst (activity n input) of
                            Inr v \<Rightarrow> Inr v
                          | Inl e \<Rightarrow> Inl (StageFailure name n e))"
    and lst: "isl (fst (activity n input)) \<longrightarrow> ?k \<le> n"
    unfolding call_activity_with_retry_def by blast
  have le: "n \<le> ?k"
  proof (cases "n = 1")
    case True
    with assms show ?thesis by simp
  next
    case False
    with n bef have "n - 1 < ?k" by simp
    then show ?thesis by simp
  qed
  have delay: "retry_delay policy = (\<lambda>i. min (first_retry_interval_in_milliseconds policy
                                  * backoff_coefficient policy ^ (i - 2))
                                (max_retry_interval policy))"
    by (rule ext) (simp add: retry_delay_def)
  have two: "Suc 1 = 2" by simp
  have first: "\<exists>n. 1 \<le> n \<and> n \<le> ?k
            \<and> invocations (snd ?run) = map (Pair name) [1..<Suc n]
            \<and> timers (snd ?run)
                = map (\<lambda>i. min (first_retry_interval_in_milliseconds policy
                                  * backoff_coefficient policy ^ (i - 2))
                                (max_retry_interval policy)) [2..<Suc n]
            \<and> (\<forall>i. 1 \<le> i \<and> i < n \<longrightarrow> isl (fst (activity i input)))
            \<and> (isl (fst (activity n input)) \<longrightarrow> n = ?k)
            \<and> fst ?run = (case fst (activity n input) of
                            Inr v \<Rightarrow> Inr v
                          | Inl e \<Rightarrow> Inl (StageFailure name n e))"
  proof (intro exI [of _ n] conjI)
    show "1 \<le> n" by (rule n)
    show "n \<le> ?k" by (rule le)
    show "invocations (snd ?run) = map (Pair name) [1..<Suc n]" by (rule inv)
    show "timers (snd ?run)
            = map (\<lambda>i. min (first_retry_interval_in_milliseconds policy
                              * backoff_coefficient policy ^ (i - 2))
                            (max_retry_interval policy)) [2..<Suc n]"
      using tim unfolding delay two .
    show "\<forall>i. 1 \<le> i \<and> i < n \<longrightarrow> isl (fst (activity i input))" using bef by blast
    show "isl (fst (activity n input)) \<longrightarrow> n = ?k" using lst le by auto
    show "fst ?run = (case fst (activity n input) of
                        Inr v \<Rightarrow> Inr v
                      | Inl e \<Rightarrow> Inl (StageFailure name n e))" by (rule res)
  qed
  have second: "(\<forall>i. 1 \<le> i \<and> i \<le> ?k \<longrightarrow> isl (fst (activity i input)))
              \<longrightarrow> (\<exists>e. fst (activity ?k input) = Inl e
                      \<and> fst ?run = Inl (StageFailure name ?k e))
                  \<and> length (invocations (snd ?run)) = ?k"
  proof
    assume all: "\<forall>i. 1 \<le> i \<and> i \<le> ?k \<longrightarrow> isl (fst (activity i input))"
    with n le have "isl (fst (activity n input))" by simp
    with lst le have nk: "n = ?k" by simp
    from all assms obtain e where e: "fst (activity ?k input) = Inl e"
      by (cases "fst (activity ?k input)") auto
    with res nk have "fst ?run = Inl (StageFailure name ?k e)" by simp
    moreover have "length (invocations (snd ?run)) = ?k" using inv nk by simp
    ultimately show "(\<exists>e. fst (activity ?k input) = Inl e
                      \<and> fst ?run = Inl (StageFailure name ?k e))
                  \<and> length (invocations (snd ?run)) = ?k"
      using e by simp
  qed
  from first second show ?thesis by (rule conjI)
qed

theorem call_activity_with_retry_attempts_witness:
  "1 \<le> max_number_of_attempts aoai_retry
   \<and> call_activity_with_retry always_down ''callAoai'' aoai_retry aoai_input
       = (Inl (StageFailure ''callAoai'' 3 (ServiceError ''503'')),
          [ActivityInvoked ''callAoai'' 1, TimerWaited 10, ActivityInvoked ''callAoai'' 2,
           TimerWaited 20, ActivityInvoked ''callAoai'' 3])
   \<and> call_activity_with_retry up_on_third ''runDocIntel'' doc_retry document_a
       = (Inr (PStr ''text''),
          [ActivityInvoked ''runDocIntel'' 1, TimerWaited 5, ActivityInvoked ''runDocIntel'' 2,
           TimerWaited 10, ActivityInvoked ''runDocIntel'' 3])"
  using call_activity_with_retry_attempts
          [where policy = aoai_retry and activity = always_down and name = "''callAoai''"
             and input = aoai_input]
        call_activity_with_retry_attempts
          [where policy = doc_retry and activity = up_on_third and name = "''runDocIntel''"
             and input = document_a]
  by (simp add: call_activity_with_retry_def always_down_def up_on_third_def aoai_retry_def
        doc_retry_def retry_delay_def)

text \<open>The claim as stated fails: the model call gives no content, the activity turns
  the error into the value None, and the stage ends after one of its three attempts,
  with that value and not with a failure.\<close>

theorem absorbed_failure_is_not_retried:
  "callAoai_try example_lib no_content_services (PStr ''batch1:0'') aoai_input
     = Inl (RuntimeError ''Azure OpenAI returned no content.'')
   \<and> max_number_of_attempts aoai_retry = 3
   \<and> call_activity_with_retry
        (callAoai (registered_activities example_lib ''silver'' no_content_answers))
        ''callAoai'' aoai_retry aoai_input
       = (Inr PNone, [ActivityInvoked ''callAoai'' 1])"
  by (simp add: callAoai_try_def callAoai_run_def registered_activities_def
        call_activity_with_retry_def no_content_answers_def no_content_services_def
        good_services_def run_prompt_def aoai_input_def aoai_retry_def)














end
